theory Spec2Isabelle
  imports Main "HOL-Library.Sublist"
begin

section \<open>Strings, exceptions and the values passed around\<close>

text \<open>
  A Python \<open>str\<close> is modelled as a \<open>string\<close>; a character is read as a code point
  below 256. \<open>isspace\<close> is Python's \<open>str.isspace\<close> on one such code point (the class
  \<open>\s\<close> of \<open>re\<close> and the characters removed by \<open>str.strip()\<close>), and \<open>lower\<close> is
  \<open>str.lower\<close>.
\<close>

type_synonym bytes = "char list"

definition isspace :: "char \<Rightarrow> bool" where
  "isspace c =
     (let n = (of_char c :: nat)
      in (9 \<le> n \<and> n \<le> 13) \<or> (28 \<le> n \<and> n \<le> 32) \<or> n = 133 \<or> n = 160)"

definition lower_char :: "char \<Rightarrow> char" where
  "lower_char c =
     (let n = (of_char c :: nat)
      in if (65 \<le> n \<and> n \<le> 90) \<or> (192 \<le> n \<and> n \<le> 222 \<and> n \<noteq> 215)
         then char_of (n + 32) else c)"

definition lower :: "string \<Rightarrow> string" where
  "lower s = map lower_char s"

definition startswith :: "string \<Rightarrow> string \<Rightarrow> bool" where
  "startswith s p = prefix p s"

text \<open>\<open>contains s sub\<close> is Python's \<open>sub in s\<close>.\<close>

fun contains :: "string \<Rightarrow> string \<Rightarrow> bool" where
  "contains [] sub = (sub = [])"
| "contains (c # cs) sub = (prefix sub (c # cs) \<or> contains cs sub)"

definition strip :: "string \<Rightarrow> string" where
  "strip s = rev (dropWhile isspace (rev (dropWhile isspace s)))"

text \<open>
  An exception is identified by its description \<open>str(e)\<close>, the only thing the source
  reads of it. Only subclasses of \<open>Exception\<close> are modelled: they are what the
  handlers of the source catch.
\<close>

datatype exn = Exception string

fun str :: "exn \<Rightarrow> string" where
  "str (Exception msg) = msg"

text \<open>\<open>x or d\<close> for an optional string: \<open>None\<close> and the empty string are falsy.\<close>

fun truthy :: "string option \<Rightarrow> bool" where
  "truthy None = False"
| "truthy (Some s) = (s \<noteq> [])"

fun or_else :: "string option \<Rightarrow> string \<Rightarrow> string" where
  "or_else None d = d"
| "or_else (Some s) d = (if s = [] then d else s)"

section \<open>The generative model and the other collaborators of the resolver\<close>

type_synonym file_ref = string

datatype part = Part bytes string

text \<open>One element of the list \<open>contents\<close> handed to \<open>generate_content\<close>.\<close>

datatype content = Blob part | Uploaded file_ref | Str string

type_synonym safety_settings = "(string \<times> string) list"

text \<open>
  The attribute \<open>text\<close> of a model reply: missing (\<open>hasattr\<close> is false), present with
  a value that may be \<open>None\<close>, or a property whose getter raises.
\<close>

datatype reply = Missing | Value "string option" | Raises exn

record http_response =
  resp_content :: bytes
  resp_text :: string

text \<open>
  Everything \<open>handle_content\<close> calls outside this repository. Each call either
  returns (\<open>Inr\<close>) or raises (\<open>Inl\<close>).
  \<^item> \<open>guess_type\<close>: \<open>mimetypes.guess_type(source)[0]\<close>; it parses its argument as
    a URL and raises \<open>ValueError\<close> on one that \<open>urllib.parse\<close> rejects;
  \<^item> \<open>http_get\<close>: \<open>httpx.get(source, timeout=30.0)\<close>;
  \<^item> \<open>open_rb\<close>, \<open>open_r\<close>: opening and reading a local file, as bytes and as text;
  \<^item> \<open>named_temp\<close>: creating the temporary file for a downloaded body, giving its name;
  \<^item> \<open>files_upload\<close>: \<open>client.files.upload\<close>;
  \<^item> \<open>from_bytes\<close>: \<open>types.Part.from_bytes\<close>;
  \<^item> \<open>generate_content\<close>: \<open>client.models.generate_content\<close>, with the safety
    settings when they are passed.
\<close>

record world =
  guess_type :: "string \<Rightarrow> exn + string option"
  http_get :: "string \<Rightarrow> exn + http_response"
  open_rb :: "string \<Rightarrow> exn + bytes"
  open_r :: "string \<Rightarrow> exn + string"
  named_temp :: "string \<Rightarrow> bytes \<Rightarrow> exn + string"
  files_upload :: "string \<Rightarrow> exn + file_ref"
  from_bytes :: "bytes \<Rightarrow> string \<Rightarrow> exn + part"
  generate_content :: "content list \<Rightarrow> safety_settings option \<Rightarrow> exn + reply"

text \<open>One recorded call of the model: the contents and the safety settings passed.\<close>

type_synonym model_call = "content list \<times> safety_settings option"

section \<open>handle\_content\<close>

text \<open>Lines 43 to 46: the MIME type is guessed when the hint is \<open>None\<close> or empty.\<close>

definition resolve_mime :: "world \<Rightarrow> string \<Rightarrow> string option \<Rightarrow> exn + string option" where
  "resolve_mime w source mime_type =
     (if \<not> truthy mime_type then guess_type w source else Inr mime_type)"

text \<open>
  What the category dispatch leaves: an early \<open>return\<close> of a text, or the assembled
  \<open>contents\<close>.
\<close>

datatype built = Return string | Contents "content list"

text \<open>Lines 56 to 69: the bytes of the PDF, or the text returned when they cannot be had.\<close>

definition pdf_data :: "world \<Rightarrow> string \<Rightarrow> string + bytes" where
  "pdf_data w source =
     (if startswith source ''http'' then
        (case http_get w source of
           Inl e \<Rightarrow> Inl (''Error fetching PDF: '' @ str e)
         | Inr response \<Rightarrow> Inr (resp_content response))
      else
        (case open_rb w source of
           Inl e \<Rightarrow> Inl (''Error reading PDF file: '' @ str e)
         | Inr data \<Rightarrow> Inr data))"

text \<open>
  Lines 81 to 90 and 105 to 114: a remote source is downloaded into a temporary file,
  a local one is used as it is.
\<close>

definition file_to_use :: "world \<Rightarrow> string \<Rightarrow> exn + string" where
  "file_to_use w source =
     (if startswith source ''http'' then
        (case http_get w source of
           Inl e \<Rightarrow> Inl e
         | Inr resp \<Rightarrow> named_temp w source (resp_content resp))
      else Inr source)"

text \<open>Lines 129 to 134.\<close>

definition text_data :: "world \<Rightarrow> string \<Rightarrow> exn + string" where
  "text_data w source =
     (if startswith source ''http'' then
        (case http_get w source of
           Inl e \<Rightarrow> Inl e
         | Inr resp \<Rightarrow> Inr (resp_text resp))
      else open_r w source)"

text \<open>
  The conditions of the \<open>if\<close>/\<open>elif\<close> chain of lines 53, 77, 102, 126 and 141, in
  that order: the branch taken for a MIME type.
\<close>

datatype category = PDF | Image | Audio | Text | Unsupported

definition category :: "string option \<Rightarrow> category" where
  "category mime_type =
     (if mime_type = Some ''application/pdf'' then PDF
      else if truthy mime_type \<and> startswith (the mime_type) ''image/'' then Image
      else if truthy mime_type \<and> startswith (the mime_type) ''audio/'' then Audio
      else if truthy mime_type \<and>
              (startswith (the mime_type) ''text/'' \<or> contains (the mime_type) ''json'')
      then Text
      else Unsupported)"

text \<open>
  Lines 53 to 143, the body of each branch. \<open>Inl\<close> is an exception that no inner
  handler catches and that reaches the handler of line 192.
\<close>

definition build_contents ::
  "world \<Rightarrow> string \<Rightarrow> string option \<Rightarrow> string option \<Rightarrow> exn + built" where
  "build_contents w source mime_type user_input =
     (case category mime_type of
        PDF \<Rightarrow>
          (case pdf_data w source of
             Inl msg \<Rightarrow> Inr (Return msg)
           | Inr data \<Rightarrow>
               (case from_bytes w data ''application/pdf'' of
                  Inl e \<Rightarrow> Inl e
                | Inr p \<Rightarrow>
                    Inr (Contents [Blob p,
                                   Str (or_else user_input ''Summarize this document.'')])))
      | Image \<Rightarrow>
          (case file_to_use w source of
             Inl e \<Rightarrow> Inr (Return (''Error processing image: '' @ str e))
           | Inr f \<Rightarrow>
               (case files_upload w f of
                  Inl e \<Rightarrow> Inr (Return (''Error processing image: '' @ str e))
                | Inr upload_ref \<Rightarrow>
                    Inr (Contents [Uploaded upload_ref,
                                   Str (or_else user_input ''Caption this image.'')])))
      | Audio \<Rightarrow>
          (case file_to_use w source of
             Inl e \<Rightarrow> Inr (Return (''Error processing audio: '' @ str e))
           | Inr f \<Rightarrow>
               (case files_upload w f of
                  Inl e \<Rightarrow> Inr (Return (''Error processing audio: '' @ str e))
                | Inr upload_ref \<Rightarrow>
                    Inr (Contents [Str (or_else user_input ''Describe this audio clip.''),
                                   Uploaded upload_ref])))
      | Text \<Rightarrow>
          (case text_data w source of
             Inl e \<Rightarrow> Inr (Return (''Error processing text content: '' @ str e))
           | Inr t \<Rightarrow>
               Inr (Contents [Str t, Str (or_else user_input ''Summarize this content.'')]))
      | Unsupported \<Rightarrow>
          Inr (Return (''Unsupported content type: '' @ or_else mime_type ''unknown'')))"

text \<open>Lines 156 to 161.\<close>

definition safety_settings :: safety_settings where
  "safety_settings =
     [(''HARASSMENT'', ''BLOCK_NONE''), (''HATE'', ''BLOCK_NONE''),
      (''SEXUAL'', ''BLOCK_NONE''), (''DANGEROUS'', ''BLOCK_NONE'')]"

text \<open>Line 170: the test that decides the retry.\<close>

definition blocked_or_safety :: "exn \<Rightarrow> bool" where
  "blocked_or_safety e =
     (contains (lower (str e)) ''blocked'' \<or> contains (lower (str e)) ''safety'')"

text \<open>
  Lines 163 to 179, with the calls made to the model in order. \<open>Inl\<close> is the
  exception that leaves the inner \<open>try\<close>.
\<close>

definition call_model :: "world \<Rightarrow> content list \<Rightarrow> (exn + reply) \<times> model_call list" where
  "call_model w contents =
     (case generate_content w contents None of
        Inr resp \<Rightarrow> (Inr resp, [(contents, None)])
      | Inl e \<Rightarrow>
          if blocked_or_safety e then
            (generate_content w contents (Some safety_settings),
             [(contents, None), (contents, Some safety_settings)])
          else (Inl e, [(contents, None)]))"

text \<open>Lines 181 to 186.\<close>

fun reply_text :: "reply \<Rightarrow> exn + string" where
  "reply_text Missing = Inr ''I couldn't generate a response for this content.''"
| "reply_text (Raises e) = Inl e"
| "reply_text (Value None) = Inr ''I couldn't generate a response for this content.''"
| "reply_text (Value (Some t)) =
     (if t \<noteq> [] then Inr t else Inr ''I couldn't generate a response for this content.'')"

text \<open>Lines 147 to 190: the generation step with its handler.\<close>

definition generate :: "world \<Rightarrow> content list \<Rightarrow> string \<times> model_call list" where
  "generate w contents =
     (case call_model w contents of
        (Inl e, calls) \<Rightarrow> (''Error generating response: '' @ str e, calls)
      | (Inr resp, calls) \<Rightarrow>
          (case reply_text resp of
             Inl e \<Rightarrow> (''Error generating response: '' @ str e, calls)
           | Inr t \<Rightarrow> (t, calls)))"

text \<open>
  The whole function: what it returns (\<open>Inr\<close>) or raises (\<open>Inl\<close>), and the calls it
  made to the model. The \<open>finally\<close> block removes the temporary files and catches what
  the removal raises; it changes neither the result nor the calls.
\<close>

definition handle_content ::
  "world \<Rightarrow> string \<Rightarrow> string option \<Rightarrow> string option \<Rightarrow> (exn + string) \<times> model_call list" where
  "handle_content w source mime_type user_input =
     (case resolve_mime w source mime_type of
        Inl e \<Rightarrow> (Inl e, [])
      | Inr mime \<Rightarrow>
          (case build_contents w source mime user_input of
             Inl e \<Rightarrow> (Inr (''An error occurred while processing your request: '' @ str e), [])
           | Inr (Return t) \<Rightarrow> (Inr t, [])
           | Inr (Contents contents) \<Rightarrow>
               (case generate w contents of (t, calls) \<Rightarrow> (Inr t, calls))))"

section \<open>extract\_urls\<close>

text \<open>
  The pattern \<open>https?://[^\s]+\<close> tried at the start of a string: the scheme, then
  the longest run of characters that are not whitespace, which must not be empty. The
  result is the matched text and what follows it.
\<close>

definition scheme :: "string \<Rightarrow> (string \<times> string) option" where
  "scheme s =
     (if prefix ''https://'' s then Some (''https://'', drop 8 s)
      else if prefix ''http://'' s then Some (''http://'', drop 7 s)
      else None)"

definition match_url :: "string \<Rightarrow> (string \<times> string) option" where
  "match_url s =
     (case scheme s of
        None \<Rightarrow> None
      | Some (sch, r) \<Rightarrow>
          (if takeWhile (\<lambda>c. \<not> isspace c) r = [] then None
           else Some (sch @ takeWhile (\<lambda>c. \<not> isspace c) r,
                      dropWhile (\<lambda>c. \<not> isspace c) r)))"

lemma match_url_shorter:
  "match_url s = Some (m, rest) \<Longrightarrow> length rest < length s"
proof -
  assume a: "match_url s = Some (m, rest)"
  have d: "length (dropWhile P xs) \<le> length xs" for P and xs :: string
    by (rule length_dropWhile_le)
  from a obtain sch r where s: "scheme s = Some (sch, r)"
    and rest: "rest = dropWhile (\<lambda>c. \<not> isspace c) r"
    by (auto simp: match_url_def split: option.splits if_splits)
  from s have "length r < length s"
    by (auto simp: scheme_def prefix_def split: if_splits)
  with d [of "\<lambda>c. \<not> isspace c" r] rest show ?thesis by simp
qed

text \<open>
  \<open>re.findall\<close> for that pattern: the matches from left to right, none overlapping
  another; the search goes on where the last match ended.
\<close>

function findall :: "string \<Rightarrow> string list" where
  "findall [] = []"
| "findall (c # cs) =
     (case match_url (c # cs) of
        Some (m, rest) \<Rightarrow> m # findall rest
      | None \<Rightarrow> findall cs)"
  by pat_completeness auto
termination
  by (relation "measure length") (auto dest: match_url_shorter)

text \<open>Lines 17 to 21.\<close>

definition extract_urls :: "string option \<Rightarrow> string list" where
  "extract_urls t = (if \<not> truthy t then [] else findall (the t))"

text \<open>
  What the extractor is compared with. A word is a URL when it starts with one of the
  two schemes and goes on for at least one character; \<open>url_in_word\<close> is the part of a
  word from its first URL on; \<open>no_scheme\<close> says that a word holds neither scheme;
  \<open>words_text\<close> is the text made of a first word and then separators and words in turn.
\<close>

definition is_url :: "string \<Rightarrow> bool" where
  "is_url w = ((prefix ''http://'' w \<and> 7 < length w) \<or> (prefix ''https://'' w \<and> 8 < length w))"

fun url_in_word :: "string \<Rightarrow> string option" where
  "url_in_word [] = None"
| "url_in_word (c # cs) = (if is_url (c # cs) then Some (c # cs) else url_in_word cs)"

definition no_scheme :: "string \<Rightarrow> bool" where
  "no_scheme w = (\<not> contains w ''http://'' \<and> \<not> contains w ''https://'')"

definition words_text :: "string \<Rightarrow> (string \<times> string) list \<Rightarrow> string" where
  "words_text w0 ps = w0 @ concat (map (\<lambda>(s, w). s @ w) ps)"

section \<open>chatbot\_post\<close>

text \<open>
  The uploaded file (its name is a string whenever a file part was sent), the stored
  interaction, the body of a successful response, and what the retrieval query gives
  back: an object that is falsy, one without the attribute \<open>response\<close>, or one whose
  \<open>response\<close> is a string or \<open>None\<close>.
\<close>

record upload_file =
  filename :: string
  content_type :: "string option"
  file_bytes :: bytes

record interaction =
  rec_user_id :: nat
  rec_user_input :: string
  rec_response :: string
  rec_timestamp :: nat

record chatbot_response =
  out_user_input :: string
  out_response :: string
  out_timestamp :: nat

datatype query_out = Falsy | NoResponse | Response "string option"

text \<open>
  What the handler calls besides the resolver's collaborators:
  \<^item> \<open>history_error\<close>: the exception of the history query of lines 47 to 53, if it raises;
  \<^item> \<open>save_upload\<close>: lines 65 to 71, the upload written to a temporary file, giving
    its name;
  \<^item> \<open>http_head\<close>: \<open>httpx.head(url, timeout=10.0)\<close>, giving the \<open>Content-Type\<close>
    header when there is one;
  \<^item> \<open>query\<close>: \<open>query_engine.query\<close>;
  \<^item> \<open>commit_error\<close>: the exception of \<open>db.add\<close> and \<open>db.commit\<close>, if they raise;
  \<^item> \<open>utc_now\<close>: the clock.
\<close>

record chat_env =
  resolver :: world
  history_error :: "exn option"
  save_upload :: "string \<Rightarrow> bytes \<Rightarrow> exn + string"
  http_head :: "string \<Rightarrow> exn + string option"
  query :: "string \<Rightarrow> exn + query_out"
  commit_error :: "interaction \<Rightarrow> exn option"
  utc_now :: nat

text \<open>
  How a request ends: an \<open>HTTPException\<close> with its status, another exception, or the
  response body.
\<close>

datatype outcome = HTTPException nat string | Raised exn | Success chatbot_response

text \<open>
  The end of a request, the table of interactions after it, and the texts sent to the
  retrieval query during it.
\<close>

record run =
  outcome :: outcome
  stored :: "interaction list"
  queries :: "string list"

definition prompt_header :: string where
  "prompt_header =
     ''\<newline>  you are Code&Clause, designed to assist with the clearance of Information Technology projects by public institutions.\<newline>'' @
     ''  You can also provide efficient, enjoyable, and secure service by processing applications, sending notices, verifying identity, resolving disputes, managing risk, and improving NITDA services.\<newline>'' @
     ''  You can also help detect, prevent, or remediate violations of laws, regulations, standards, guidelines, and frameworks, as well as track information breaches and manage information technology and physical infrastructure.\<newline>''"

text \<open>
  Lines 63 to 86: the text collected for the uploaded file. \<open>Inl\<close> is an exception
  raised outside the inner \<open>try\<close>, which the handler of line 147 turns into a 500.
\<close>

definition file_texts :: "chat_env \<Rightarrow> string option \<Rightarrow> upload_file option \<Rightarrow> exn + string list" where
  "file_texts env user_input file =
     (case file of
        None \<Rightarrow> Inr []
      | Some f \<Rightarrow>
          (case save_upload env (filename f) (file_bytes f) of
             Inl e \<Rightarrow> Inl e
           | Inr tmp \<Rightarrow>
               (case (if truthy (content_type f) then Inr (content_type f)
                      else guess_type (resolver env) (filename f)) of
                  Inl e \<Rightarrow> Inl e
                | Inr mime \<Rightarrow>
                    (case fst (handle_content (resolver env) tmp mime
                                 (Some (or_else user_input ''Analyze this file.''))) of
                       Inl e \<Rightarrow> Inr [''Error processing file: '' @ str e]
                     | Inr response \<Rightarrow>
                         (if response \<noteq> [] then Inr [response]
                          else Inr [''I couldn't process this file type properly.''])))))"

text \<open>
  Lines 94 to 107: the text collected for one URL. The default of \<open>headers.get\<close> is
  evaluated before the header is looked up.
\<close>

definition url_text :: "chat_env \<Rightarrow> string \<Rightarrow> string \<Rightarrow> string" where
  "url_text env user_input url =
     (case http_head env url of
        Inl e \<Rightarrow> ''Error processing URL '' @ url @ '': '' @ str e
      | Inr header \<Rightarrow>
          (case guess_type (resolver env) url of
             Inl e \<Rightarrow> ''Error processing URL '' @ url @ '': '' @ str e
           | Inr guess \<Rightarrow>
               (case fst (handle_content (resolver env) url
                            (case header of Some h \<Rightarrow> Some h | None \<Rightarrow> guess)
                            (Some user_input)) of
                  Inl e \<Rightarrow> ''Error processing URL '' @ url @ '': '' @ str e
                | Inr url_response \<Rightarrow>
                    (if url_response \<noteq> [] then url_response
                     else ''Couldn't process URL: '' @ url))))"

text \<open>Lines 89 to 107.\<close>

definition url_texts :: "chat_env \<Rightarrow> string option \<Rightarrow> string list" where
  "url_texts env user_input =
     (if truthy user_input
      then map (url_text env (the user_input)) (extract_urls user_input)
      else [])"

text \<open>Line 109: the texts kept, each of them stripped.\<close>

definition kept :: "string \<Rightarrow> bool" where
  "kept r = (r \<noteq> [] \<and> strip r \<noteq> [] \<and> \<not> contains r ''Empty Response'')"

definition filter_texts :: "string list \<Rightarrow> string list" where
  "filter_texts response_texts = map strip (filter kept response_texts)"

text \<open>Lines 115 to 125: the query sent and the text appended by the fallback.\<close>

definition query_text :: "string \<Rightarrow> string" where
  "query_text user_input = prompt_header @ ''\<newline>'' @ user_input"

text \<open>The \<open>AttributeError\<close> of \<open>None.strip()\<close>.\<close>

definition none_strip :: exn where
  "none_strip =
     Exception ('''NoneType' object has no attribute 'strip'' @ [CHR 0x27])"

definition fallback_text :: "chat_env \<Rightarrow> string \<Rightarrow> string" where
  "fallback_text env user_input =
     (case query env (query_text user_input) of
        Inl e \<Rightarrow> ''Error generating response: '' @ str e
      | Inr Falsy \<Rightarrow> ''I couldn't generate a good response for your query.''
      | Inr NoResponse \<Rightarrow> ''I couldn't generate a good response for your query.''
      | Inr (Response None) \<Rightarrow> ''Error generating response: '' @ str none_strip
      | Inr (Response (Some r)) \<Rightarrow>
          (if strip r \<noteq> [] then strip r
           else ''I couldn't generate a good response for your query.''))"

text \<open>\<open>sep.join(xs)\<close>.\<close>

fun join :: "string \<Rightarrow> string list \<Rightarrow> string" where
  "join sep [] = []"
| "join sep [x] = x"
| "join sep (x # y # ys) = x @ sep @ join sep (y # ys)"

text \<open>Line 128.\<close>

definition final_resp :: "string list \<Rightarrow> string" where
  "final_resp response_texts =
     (if join ''\<newline>\<newline>'' response_texts \<noteq> []
      then join ''\<newline>\<newline>'' response_texts
      else ''I'm having trouble generating a response right now.'')"

text \<open>Line 134.\<close>

definition record_user_input :: "string option \<Rightarrow> upload_file option \<Rightarrow> string" where
  "record_user_input user_input file =
     (if truthy user_input then the user_input
      else (case file of Some f \<Rightarrow> filename f | None \<Rightarrow> ''<empty>''))"

text \<open>
  Lines 109 to 125: the texts that go into the final response, and the queries made.
  The fallback runs when nothing was kept and there is user text.
\<close>

definition with_fallback ::
  "chat_env \<Rightarrow> string option \<Rightarrow> string list \<Rightarrow> string list \<times> string list" where
  "with_fallback env user_input collected =
     (if filter_texts collected = [] \<and> truthy user_input
      then (filter_texts collected @ [fallback_text env (the user_input)],
            [query_text (the user_input)])
      else (filter_texts collected, []))"

text \<open>
  The handler, for the user with the given id and the table \<open>db\<close> of interactions.
\<close>

definition chatbot_post ::
  "chat_env \<Rightarrow> interaction list \<Rightarrow> nat \<Rightarrow> string option \<Rightarrow> upload_file option \<Rightarrow> run" where
  "chatbot_post env db user_id user_input file =
     (if \<not> truthy user_input \<and> file = None then
        \<lparr>outcome = HTTPException 400 ''Provide text, file, or URL links'',
         stored = db, queries = []\<rparr>
      else
        (case history_error env of
           Some e \<Rightarrow> \<lparr>outcome = Raised e, stored = db, queries = []\<rparr>
         | None \<Rightarrow>
             (case file_texts env user_input file of
                Inl e \<Rightarrow>
                  \<lparr>outcome = HTTPException 500 (''An error occurred: '' @ str e),
                   stored = db, queries = []\<rparr>
              | Inr from_file \<Rightarrow>
                  (case with_fallback env user_input (from_file @ url_texts env user_input) of
                     (response_texts, asked) \<Rightarrow>
                       (case commit_error env
                               \<lparr>rec_user_id = user_id,
                                rec_user_input = record_user_input user_input file,
                                rec_response = final_resp response_texts,
                                rec_timestamp = utc_now env\<rparr> of
                          Some e \<Rightarrow>
                            \<lparr>outcome = HTTPException 500 (''An error occurred: '' @ str e),
                             stored = db, queries = asked\<rparr>
                        | None \<Rightarrow>
                            \<lparr>outcome = Success
                               \<lparr>out_user_input = record_user_input user_input file,
                                out_response = final_resp response_texts,
                                out_timestamp = utc_now env\<rparr>,
                             stored = db @
                               [\<lparr>rec_user_id = user_id,
                                 rec_user_input = record_user_input user_input file,
                                 rec_response = final_resp response_texts,
                                 rec_timestamp = utc_now env\<rparr>],
                             queries = asked\<rparr>)))))"

section \<open>Concrete collaborators\<close>

text \<open>
  A world in which every fetch succeeds, no local PDF can be read, \<open>guess_type\<close> knows no
  extension and rejects \<open>http://[\<close> as \<open>urllib.parse\<close> does, and the model answers
  \<open>first\<close> without safety settings and \<open>retry\<close> with them.
\<close>

definition demo_world :: "exn + reply \<Rightarrow> exn + reply \<Rightarrow> world" where
  "demo_world first retry =
     \<lparr>guess_type = (\<lambda>s. if s = ''http://['' then Inl (Exception ''Invalid IPv6 URL'')
                         else Inr None),
      http_get = (\<lambda>u. Inr \<lparr>resp_content = ''bytes'', resp_text = ''page''\<rparr>),
      open_rb = (\<lambda>p. Inl (Exception ''No such file or directory'')),
      open_r = (\<lambda>p. Inr ''notes''),
      named_temp = (\<lambda>s b. Inr ''/tmp/tmp1''),
      files_upload = (\<lambda>f. Inr ''files/1''),
      from_bytes = (\<lambda>d m. Inr (Part d m)),
      generate_content = (\<lambda>cs st. case st of None \<Rightarrow> first | Some x \<Rightarrow> retry)\<rparr>"

text \<open>
  A world whose model answers a fetched page with the page followed by a newline, and
  anything else with a fixed summary followed by a newline.
\<close>

definition echo_world :: world where
  "echo_world =
     \<lparr>guess_type = (\<lambda>s. Inr None),
      http_get = (\<lambda>u. Inr \<lparr>resp_content = u, resp_text = u\<rparr>),
      open_rb = (\<lambda>p. Inr ''bytes''),
      open_r = (\<lambda>p. Inr ''notes''),
      named_temp = (\<lambda>s b. Inr ''/tmp/tmp1''),
      files_upload = (\<lambda>f. Inr ''files/1''),
      from_bytes = (\<lambda>d m. Inr (Part d m)),
      generate_content =
        (\<lambda>cs st. case cs of
                    Str t # rest \<Rightarrow> Inr (Value (Some (t @ ''\<newline>'')))
                  | other \<Rightarrow> Inr (Value (Some ''file summary\<newline>'')))\<rparr>"

text \<open>
  The handler's collaborators over that world: every URL is served as \<open>text/plain\<close>,
  the table accepts every row, and the retrieval query is \<open>q\<close>.
\<close>

definition demo_env :: "(string \<Rightarrow> exn + query_out) \<Rightarrow> chat_env" where
  "demo_env q =
     \<lparr>resolver = echo_world,
      history_error = None,
      save_upload = (\<lambda>n b. Inr (''/tmp/up_'' @ n)),
      http_head = (\<lambda>u. Inr (Some ''text/plain'')),
      query = q,
      commit_error = (\<lambda>r. None),
      utc_now = 1000\<rparr>"

definition cat_png :: upload_file where
  "cat_png = \<lparr>filename = ''cat.png'', content_type = Some ''image/png'', file_bytes = ''PNG''\<rparr>"

text \<open>
  The same collaborators with a retrieval query that raises, and with one that returns
  a given object.
\<close>

definition failing_env :: "string \<Rightarrow> chat_env" where
  "failing_env msg = demo_env (\<lambda>q. Inl (Exception msg))"

definition answering_env :: "query_out \<Rightarrow> chat_env" where
  "answering_env out = demo_env (\<lambda>q. Inr out)"

section \<open>Properties of the resolver\<close>

lemma category_image: "startswith m ''image/'' \<Longrightarrow> category (Some m) = Image"
  by (auto simp: category_def startswith_def prefix_def)

lemma category_audio: "startswith m ''audio/'' \<Longrightarrow> category (Some m) = Audio"
  by (auto simp: category_def startswith_def prefix_def)

lemma call_model_calls:
  "snd (call_model w cs) \<noteq> [] \<and> (\<forall>c \<in> set (snd (call_model w cs)). fst c = cs)"
  by (auto simp: call_model_def split: sum.splits)

lemma generate_calls: "snd (generate w cs) = snd (call_model w cs)"
  by (auto simp: generate_def split: sum.splits prod.splits)

lemma reply_text_nonempty: "reply_text r = Inr t \<Longrightarrow> t \<noteq> []"
  by (cases r rule: reply_text.cases) (auto split: if_splits)

lemma generate_nonempty: "fst (generate w cs) \<noteq> []"
  by (auto simp: generate_def split: sum.splits prod.splits dest: reply_text_nonempty)

lemma build_return_nonempty:
  "build_contents w source mime user_input = Inr (Return t) \<Longrightarrow> t \<noteq> []"
  by (auto simp: build_contents_def pdf_data_def split: category.splits sum.splits if_splits)

lemma handle_content_returns:
  assumes "resolve_mime w source mime_type = Inr mime"
  shows "\<exists>t. fst (handle_content w source mime_type user_input) = Inr t \<and> t \<noteq> []"
  using assms generate_nonempty [of w]
  by (auto simp: handle_content_def split: sum.splits built.splits prod.splits
           dest: build_return_nonempty) (metis fst_conv)

lemma handle_content_hint:
  "truthy mime_type \<Longrightarrow> \<exists>t. fst (handle_content w source mime_type user_input) = Inr t \<and> t \<noteq> []"
  by (rule handle_content_returns [of w source mime_type mime_type]) (simp add: resolve_mime_def)

lemma guess_raises:
  "\<not> truthy mime_type \<Longrightarrow> guess_type w source = Inl e \<Longrightarrow>
   handle_content w source mime_type user_input = (Inl e, [])"
  by (simp add: handle_content_def resolve_mime_def)

text \<open>
  Claim C1, at a failing input. The guess of line 45 is made before the \<open>try\<close> of line
  51: for the source \<open>http://[\<close> with no MIME hint, the \<open>ValueError\<close> of
  \<open>mimetypes.guess_type\<close> leaves \<open>handle_content\<close> as an exception instead of
  becoming a text, and no call of the model is made.
\<close>

theorem handle_content_guess_raises:
  "handle_content (demo_world (Inr Missing) (Inr Missing)) ''http://['' None None
     = (Inl (Exception ''Invalid IPv6 URL''), [])"
  by (simp add: handle_content_def resolve_mime_def demo_world_def)

lemma handle_content_contents:
  assumes "resolve_mime w source mime_type = Inr mime"
    and "build_contents w source mime user_input = Inr (Contents cs)"
  shows "handle_content w source mime_type user_input = (Inr (fst (generate w cs)), snd (call_model w cs))"
  using assms generate_calls [of w cs]
  by (cases "generate w cs") (simp add: handle_content_def)

text \<open>
  Claim C2. When the first call of the model raises \<open>e\<close>: if the lowered description
  of \<open>e\<close> contains \<open>blocked\<close> or \<open>safety\<close>, the model is called once more, with
  the safety settings (every category set to \<open>BLOCK_NONE\<close>), and the result of that
  second call is the result of the step; the retried text, when the retry gives one, is
  what \<open>handle_content\<close> returns, after exactly two calls. Otherwise the model is called
  once, \<open>e\<close> is raised again, and the surrounding handler turns it into a text.
\<close>

theorem safety_retry:
  assumes "resolve_mime w source mime_type = Inr mime"
    and "build_contents w source mime user_input = Inr (Contents cs)"
    and "generate_content w cs None = Inl e"
  shows "(blocked_or_safety e \<longrightarrow>
            call_model w cs =
              (generate_content w cs (Some safety_settings),
               [(cs, None), (cs, Some safety_settings)])) \<and>
         (blocked_or_safety e \<and> generate_content w cs (Some safety_settings) = Inr (Value (Some t))
            \<and> t \<noteq> [] \<longrightarrow>
            handle_content w source mime_type user_input =
              (Inr t, [(cs, None), (cs, Some safety_settings)])) \<and>
         (\<not> blocked_or_safety e \<longrightarrow>
            call_model w cs = (Inl e, [(cs, None)]) \<and>
            handle_content w source mime_type user_input =
              (Inr (''Error generating response: '' @ str e), [(cs, None)])) \<and>
         (\<forall>kv \<in> set safety_settings. snd kv = ''BLOCK_NONE'')"
proof -
  have cm: "call_model w cs =
      (if blocked_or_safety e
       then (generate_content w cs (Some safety_settings), [(cs, None), (cs, Some safety_settings)])
       else (Inl e, [(cs, None)]))"
    using assms(3) by (simp add: call_model_def)
  have hc: "handle_content w source mime_type user_input =
      (Inr (fst (generate w cs)), snd (call_model w cs))"
    by (rule handle_content_contents [OF assms(1,2)])
  have a: "blocked_or_safety e \<longrightarrow>
      call_model w cs =
        (generate_content w cs (Some safety_settings), [(cs, None), (cs, Some safety_settings)])"
    by (simp add: cm)
  have b: "blocked_or_safety e \<and> generate_content w cs (Some safety_settings) = Inr (Value (Some t))
      \<and> t \<noteq> [] \<longrightarrow>
      handle_content w source mime_type user_input =
        (Inr t, [(cs, None), (cs, Some safety_settings)])"
    by (simp add: hc cm generate_def)
  have c: "\<not> blocked_or_safety e \<longrightarrow>
      call_model w cs = (Inl e, [(cs, None)]) \<and>
      handle_content w source mime_type user_input =
        (Inr (''Error generating response: '' @ str e), [(cs, None)])"
    by (simp add: hc cm generate_def)
  have d: "\<forall>kv \<in> set safety_settings. snd kv = ''BLOCK_NONE''"
    by (simp add: safety_settings_def)
  from a b c d show ?thesis by blast
qed

text \<open>
  Claim C3. When the file can be had and uploaded, a MIME type that starts with
  \<open>image/\<close> gives the payload \<open>[reference, prompt]\<close> and one that starts with
  \<open>audio/\<close> gives \<open>[prompt, reference]\<close>, the prompt being the user's when there is
  one and the default of the category otherwise; every call of the model carries that
  payload.
\<close>

theorem payload_order:
  assumes "file_to_use w source = Inr f" and "files_upload w f = Inr r"
  shows "(startswith m ''image/'' \<longrightarrow>
            build_contents w source (Some m) user_input =
              Inr (Contents [Uploaded r,
                     Str (if truthy user_input then the user_input else ''Caption this image.'')]) \<and>
            set (map fst (snd (handle_content w source (Some m) user_input))) =
              {[Uploaded r,
                Str (if truthy user_input then the user_input else ''Caption this image.'')]}) \<and>
         (startswith m ''audio/'' \<longrightarrow>
            build_contents w source (Some m) user_input =
              Inr (Contents [Str (if truthy user_input then the user_input
                                  else ''Describe this audio clip.''), Uploaded r]) \<and>
            set (map fst (snd (handle_content w source (Some m) user_input))) =
              {[Str (if truthy user_input then the user_input else ''Describe this audio clip.''),
                Uploaded r]})"
proof -
  have o: "or_else user_input d = (if truthy user_input then the user_input else d)" for d
    by (cases user_input) auto
  have calls: "set (map fst (snd (call_model w cs))) = {cs}" for cs
    using call_model_calls [of w cs] by (cases "snd (call_model w cs)") auto
  have rm: "m \<noteq> [] \<Longrightarrow> resolve_mime w source (Some m) = Inr (Some m)"
    by (simp add: resolve_mime_def)
  have img: "build_contents w source (Some m) user_input =
      Inr (Contents [Uploaded r,
             Str (if truthy user_input then the user_input else ''Caption this image.'')])"
    if "startswith m ''image/''"
    using assms category_image [OF that] by (simp add: build_contents_def o)
  have aud: "build_contents w source (Some m) user_input =
      Inr (Contents [Str (if truthy user_input then the user_input
                          else ''Describe this audio clip.''), Uploaded r])"
    if "startswith m ''audio/''"
    using assms category_audio [OF that] by (simp add: build_contents_def o)
  have ne: "m \<noteq> []" if "startswith m ''image/'' \<or> startswith m ''audio/''"
    using that by (auto simp: startswith_def)
  show ?thesis
  proof (intro conjI impI)
    assume i: "startswith m ''image/''"
    show "build_contents w source (Some m) user_input =
      Inr (Contents [Uploaded r,
             Str (if truthy user_input then the user_input else ''Caption this image.'')])"
      by (rule img [OF i])
    show "set (map fst (snd (handle_content w source (Some m) user_input))) =
      {[Uploaded r, Str (if truthy user_input then the user_input else ''Caption this image.'')]}"
      using handle_content_contents [OF rm img [OF i]] ne i calls by simp
  next
    assume a: "startswith m ''audio/''"
    show "build_contents w source (Some m) user_input =
      Inr (Contents [Str (if truthy user_input then the user_input
                          else ''Describe this audio clip.''), Uploaded r])"
      by (rule aud [OF a])
    show "set (map fst (snd (handle_content w source (Some m) user_input))) =
      {[Str (if truthy user_input then the user_input else ''Describe this audio clip.''),
        Uploaded r]}"
      using handle_content_contents [OF rm aud [OF a]] ne a calls by simp
  qed
qed

text \<open>
  Claim C8. When the call of the model succeeds with the reply \<open>resp\<close>, the resolver
  returns the text of the reply if it is not empty, and the fixed placeholder if the
  reply has no text (an empty text, \<open>None\<close>, or no attribute \<open>text\<close>).
\<close>

theorem reply_text_or_placeholder:
  assumes "resolve_mime w source mime_type = Inr mime"
    and "build_contents w source mime user_input = Inr (Contents cs)"
    and "fst (call_model w cs) = Inr resp"
  shows "(resp = Value (Some t) \<and> t \<noteq> [] \<longrightarrow>
            fst (handle_content w source mime_type user_input) = Inr t) \<and>
         (resp = Value (Some []) \<or> resp = Value None \<or> resp = Missing \<longrightarrow>
            fst (handle_content w source mime_type user_input) =
              Inr ''I couldn't generate a response for this content.'')"
  using assms(3) handle_content_contents [OF assms(1,2)]
  by (cases "call_model w cs") (auto simp: generate_def)

text \<open>
  Claim C10. An empty prompt is treated as an absent one: the resolver returns the same
  and makes the same calls, and the assembled payload is the same. With a prompt that
  is empty or absent, each category that assembles a payload puts its own default in
  it: a PDF whose bytes can be had gives the bytes and \<open>Summarize this document.\<close>, an
  image that can be uploaded gives the reference and \<open>Caption this image.\<close>, an audio
  clip gives \<open>Describe this audio clip.\<close> and the reference, and a text that can be
  fetched gives the text and \<open>Summarize this content.\<close>
\<close>

theorem empty_prompt_is_absent:
  "handle_content w source mime_type (Some []) = handle_content w source mime_type None \<and>
   build_contents w source mime (Some []) = build_contents w source mime None \<and>
   (\<not> truthy user_input \<and> build_contents w source mime user_input = Inr (Contents cs) \<longrightarrow>
      (case category mime of
         PDF \<Rightarrow> cs ! 1 = Str ''Summarize this document.''
       | Image \<Rightarrow> cs ! 1 = Str ''Caption this image.''
       | Audio \<Rightarrow> cs ! 0 = Str ''Describe this audio clip.''
       | Text \<Rightarrow> cs ! 1 = Str ''Summarize this content.''
       | Unsupported \<Rightarrow> False)) \<and>
   (\<not> truthy user_input \<and> pdf_data w source = Inr data \<and>
    from_bytes w data ''application/pdf'' = Inr p \<longrightarrow>
      build_contents w source (Some ''application/pdf'') user_input =
        Inr (Contents [Blob p, Str ''Summarize this document.''])) \<and>
   (\<not> truthy user_input \<and> startswith m ''image/'' \<and>
    file_to_use w source = Inr f \<and> files_upload w f = Inr r \<longrightarrow>
      build_contents w source (Some m) user_input =
        Inr (Contents [Uploaded r, Str ''Caption this image.''])) \<and>
   (\<not> truthy user_input \<and> startswith m ''audio/'' \<and>
    file_to_use w source = Inr f \<and> files_upload w f = Inr r \<longrightarrow>
      build_contents w source (Some m) user_input =
        Inr (Contents [Str ''Describe this audio clip.'', Uploaded r])) \<and>
   (\<not> truthy user_input \<and> m \<noteq> ''application/pdf'' \<and> \<not> startswith m ''image/'' \<and>
    \<not> startswith m ''audio/'' \<and> (startswith m ''text/'' \<or> contains m ''json'') \<and>
    text_data w source = Inr t \<longrightarrow>
      build_contents w source (Some m) user_input =
        Inr (Contents [Str t, Str ''Summarize this content.'']))"
proof -
  have b: "build_contents w source mm (Some []) = build_contents w source mm None" for mm
    by (simp add: build_contents_def split: category.splits sum.splits)
  have h: "handle_content w source mime_type (Some []) = handle_content w source mime_type None"
    by (simp add: handle_content_def b split: sum.splits)
  have o: "\<not> truthy user_input \<Longrightarrow> or_else user_input d = d" for d
    by (cases user_input) auto
  have c: "\<not> truthy user_input \<and> build_contents w source mime user_input = Inr (Contents cs) \<longrightarrow>
      (case category mime of
         PDF \<Rightarrow> cs ! 1 = Str ''Summarize this document.''
       | Image \<Rightarrow> cs ! 1 = Str ''Caption this image.''
       | Audio \<Rightarrow> cs ! 0 = Str ''Describe this audio clip.''
       | Text \<Rightarrow> cs ! 1 = Str ''Summarize this content.''
       | Unsupported \<Rightarrow> False)"
    by (cases "category mime") (auto simp: build_contents_def o split: sum.splits)
  have pdf: "\<not> truthy user_input \<and> pdf_data w source = Inr data \<and>
      from_bytes w data ''application/pdf'' = Inr p \<longrightarrow>
      build_contents w source (Some ''application/pdf'') user_input =
        Inr (Contents [Blob p, Str ''Summarize this document.''])"
    by (simp add: build_contents_def category_def o)
  have img: "\<not> truthy user_input \<and> startswith m ''image/'' \<and>
      file_to_use w source = Inr f \<and> files_upload w f = Inr r \<longrightarrow>
      build_contents w source (Some m) user_input =
        Inr (Contents [Uploaded r, Str ''Caption this image.''])"
    using category_image [of m] by (auto simp: build_contents_def o)
  have aud: "\<not> truthy user_input \<and> startswith m ''audio/'' \<and>
      file_to_use w source = Inr f \<and> files_upload w f = Inr r \<longrightarrow>
      build_contents w source (Some m) user_input =
        Inr (Contents [Str ''Describe this audio clip.'', Uploaded r])"
    using category_audio [of m] by (auto simp: build_contents_def o)
  have tc: "category (Some m) = Text"
    if "m \<noteq> ''application/pdf''" "\<not> startswith m ''image/''" "\<not> startswith m ''audio/''"
      "startswith m ''text/'' \<or> contains m ''json''"
  proof -
    from that(4) have "m \<noteq> []" by (auto simp: startswith_def)
    with that show ?thesis by (simp add: category_def)
  qed
  have tx: "\<not> truthy user_input \<and> m \<noteq> ''application/pdf'' \<and> \<not> startswith m ''image/'' \<and>
      \<not> startswith m ''audio/'' \<and> (startswith m ''text/'' \<or> contains m ''json'') \<and>
      text_data w source = Inr t \<longrightarrow>
      build_contents w source (Some m) user_input =
        Inr (Contents [Str t, Str ''Summarize this content.''])"
    using tc by (auto simp: build_contents_def o)
  from h b c pdf img aud tx show ?thesis by blast
qed

theorem safety_retry_witness:
  "handle_content (demo_world (Inl (Exception ''Response BLOCKED by filter''))
                              (Inr (Value (Some ''a cat''))))
     ''cat.png'' (Some ''image/png'') None =
     (Inr ''a cat'',
      [([Uploaded ''files/1'', Str ''Caption this image.''], None),
       ([Uploaded ''files/1'', Str ''Caption this image.''], Some safety_settings)]) \<and>
   handle_content (demo_world (Inl (Exception ''quota exceeded''))
                              (Inr (Value (Some ''a cat''))))
     ''cat.png'' (Some ''image/png'') None =
     (Inr ''Error generating response: quota exceeded'',
      [([Uploaded ''files/1'', Str ''Caption this image.''], None)])"
proof -
  let ?cs = "[Uploaded ''files/1'', Str ''Caption this image.'']"
  let ?b = "Exception ''Response BLOCKED by filter''"
  let ?q = "Exception ''quota exceeded''"
  let ?w = "\<lambda>e. demo_world (Inl e) (Inr (Value (Some ''a cat'')))"
  have r: "resolve_mime (?w e) ''cat.png'' (Some ''image/png'') = Inr (Some ''image/png'')" for e
    by (simp add: resolve_mime_def)
  have b: "build_contents (?w e) ''cat.png'' (Some ''image/png'') None = Inr (Contents ?cs)" for e
    by (simp add: build_contents_def category_def startswith_def file_to_use_def demo_world_def)
  have g: "generate_content (?w e) ?cs None = Inl e" for e
    by (simp add: demo_world_def)
  have g2: "generate_content (?w e) ?cs (Some safety_settings) = Inr (Value (Some ''a cat''))" for e
    by (simp add: demo_world_def)
  have yes: "blocked_or_safety ?b" by code_simp
  have no: "\<not> blocked_or_safety ?q" by code_simp
  show ?thesis
    using safety_retry [OF r b g, of ?b "''a cat''"] safety_retry [OF r b g, of ?q "''a cat''"]
      yes no g2
    by simp
qed

theorem payload_order_witness:
  "build_contents echo_world ''cat.png'' (Some ''image/png'') (Some ''What is this?'') =
     Inr (Contents [Uploaded ''files/1'', Str ''What is this?'']) \<and>
   build_contents echo_world ''http://a/b.mp3'' (Some ''audio/mpeg'') None =
     Inr (Contents [Str ''Describe this audio clip.'', Uploaded ''files/1''])"
proof -
  have f1: "file_to_use echo_world ''cat.png'' = Inr ''cat.png''"
    by (simp add: file_to_use_def startswith_def)
  have f2: "file_to_use echo_world ''http://a/b.mp3'' = Inr ''/tmp/tmp1''"
    by (simp add: file_to_use_def startswith_def echo_world_def)
  have u: "files_upload echo_world f = Inr ''files/1''" for f
    by (simp add: echo_world_def)
  have i: "startswith ''image/png'' ''image/''" by (simp add: startswith_def)
  have a: "startswith ''audio/mpeg'' ''audio/''" by (simp add: startswith_def)
  show ?thesis
    using payload_order [OF f1 u, of "''image/png''" "Some ''What is this?''"]
      payload_order [OF f2 u, of "''audio/mpeg''" None] i a
    by simp
qed

theorem reply_text_or_placeholder_witness:
  "fst (handle_content (demo_world (Inr (Value (Some ''a cat''))) (Inr Missing))
          ''cat.png'' (Some ''image/png'') None) = Inr ''a cat'' \<and>
   fst (handle_content (demo_world (Inr (Value None)) (Inr Missing))
          ''cat.png'' (Some ''image/png'') None) =
     Inr ''I couldn't generate a response for this content.''"
proof -
  let ?cs = "[Uploaded ''files/1'', Str ''Caption this image.'']"
  let ?w = "\<lambda>x. demo_world (Inr x) (Inr Missing)"
  have r: "resolve_mime (?w x) ''cat.png'' (Some ''image/png'') = Inr (Some ''image/png'')" for x
    by (simp add: resolve_mime_def)
  have b: "build_contents (?w x) ''cat.png'' (Some ''image/png'') None = Inr (Contents ?cs)" for x
    by (simp add: build_contents_def category_def startswith_def file_to_use_def demo_world_def)
  have c: "fst (call_model (?w x) ?cs) = Inr x" for x
    by (simp add: call_model_def demo_world_def)
  show ?thesis
    using reply_text_or_placeholder [OF r b c, of "Value (Some ''a cat'')" "''a cat''"]
      reply_text_or_placeholder [OF r b c, of "Value None" "''a cat''"]
    by simp
qed

theorem empty_prompt_is_absent_witness:
  "build_contents echo_world ''doc.pdf'' (Some ''application/pdf'') (Some []) =
     Inr (Contents [Blob (Part ''bytes'' ''application/pdf''), Str ''Summarize this document.'']) \<and>
   build_contents echo_world ''cat.png'' (Some ''image/png'') None =
     Inr (Contents [Uploaded ''files/1'', Str ''Caption this image.'']) \<and>
   build_contents echo_world ''http://a/b.mp3'' (Some ''audio/mpeg'') (Some []) =
     Inr (Contents [Str ''Describe this audio clip.'', Uploaded ''files/1'']) \<and>
   build_contents echo_world ''notes.txt'' (Some ''application/json'') None =
     Inr (Contents [Str ''notes'', Str ''Summarize this content.''])"
proof -
  have p: "pdf_data echo_world ''doc.pdf'' = Inr ''bytes''"
    by (simp add: pdf_data_def startswith_def echo_world_def)
  have fb: "from_bytes echo_world ''bytes'' ''application/pdf'' = Inr (Part ''bytes'' ''application/pdf'')"
    by (simp add: echo_world_def)
  have f1: "file_to_use echo_world ''cat.png'' = Inr ''cat.png''"
    by (simp add: file_to_use_def startswith_def)
  have f2: "file_to_use echo_world ''http://a/b.mp3'' = Inr ''/tmp/tmp1''"
    by (simp add: file_to_use_def startswith_def echo_world_def)
  have u: "files_upload echo_world x = Inr ''files/1''" for x
    by (simp add: echo_world_def)
  have t: "text_data echo_world ''notes.txt'' = Inr ''notes''"
    by (simp add: text_data_def startswith_def echo_world_def)
  have i: "startswith ''image/png'' ''image/''" and a: "startswith ''audio/mpeg'' ''audio/''"
    by (simp_all add: startswith_def)
  have j: "''application/json'' \<noteq> ''application/pdf'' \<and> \<not> startswith ''application/json'' ''image/'' \<and>
      \<not> startswith ''application/json'' ''audio/'' \<and> contains ''application/json'' ''json''"
    by (simp add: startswith_def)
  have 1: "build_contents echo_world ''doc.pdf'' (Some ''application/pdf'') (Some []) =
      Inr (Contents [Blob (Part ''bytes'' ''application/pdf''), Str ''Summarize this document.''])"
    by (rule empty_prompt_is_absent [where user_input = "Some []" and data = "''bytes''",
          THEN conjunct2, THEN conjunct2, THEN conjunct2, THEN conjunct1, THEN mp])
      (simp add: p fb)
  have 2: "build_contents echo_world ''cat.png'' (Some ''image/png'') None =
      Inr (Contents [Uploaded ''files/1'', Str ''Caption this image.''])"
    by (rule empty_prompt_is_absent [where user_input = None and f = "''cat.png''",
          THEN conjunct2, THEN conjunct2, THEN conjunct2, THEN conjunct2, THEN conjunct1, THEN mp])
      (simp add: f1 u i)
  have 3: "build_contents echo_world ''http://a/b.mp3'' (Some ''audio/mpeg'') (Some []) =
      Inr (Contents [Str ''Describe this audio clip.'', Uploaded ''files/1''])"
    by (rule empty_prompt_is_absent [where user_input = "Some []" and f = "''/tmp/tmp1''",
          THEN conjunct2, THEN conjunct2, THEN conjunct2, THEN conjunct2, THEN conjunct2,
          THEN conjunct1, THEN mp])
      (simp add: f2 u a)
  have 4: "build_contents echo_world ''notes.txt'' (Some ''application/json'') None =
      Inr (Contents [Str ''notes'', Str ''Summarize this content.''])"
    by (rule empty_prompt_is_absent [where user_input = None,
          THEN conjunct2, THEN conjunct2, THEN conjunct2, THEN conjunct2, THEN conjunct2,
          THEN conjunct2, THEN mp])
      (simp add: t j)
  from 1 2 3 4 show ?thesis by (intro conjI)
qed

section \<open>Properties of the extractor\<close>

lemma prefix_word:
  assumes "\<forall>c \<in> set p. \<not> isspace c" and "rest = [] \<or> isspace (hd rest)"
  shows "prefix p (w @ rest) \<longleftrightarrow> prefix p w"
proof
  assume "prefix p (w @ rest)"
  then consider "prefix p w" | us where "p = w @ us" "prefix us rest"
    by (auto simp: prefix_append)
  then show "prefix p w"
  proof cases
    case 1
    then show ?thesis .
  next
    case 2
    show ?thesis
    proof (cases us)
      case Nil
      with 2 show ?thesis by simp
    next
      case (Cons u us')
      with 2 have "rest \<noteq> []" "hd rest = u" "u \<in> set p"
        by (auto simp: prefix_def)
      with assms show ?thesis by auto
    qed
  qed
next
  assume "prefix p w"
  then show "prefix p (w @ rest)" by (simp add: prefix_prefix)
qed

lemma run_word:
  assumes "\<forall>c \<in> set w. \<not> isspace c" and "rest = [] \<or> isspace (hd rest)"
  shows "takeWhile (\<lambda>c. \<not> isspace c) (w @ rest) = w"
    and "dropWhile (\<lambda>c. \<not> isspace c) (w @ rest) = rest"
  using assms by (cases rest; simp add: takeWhile_append2 dropWhile_append2)+

lemma not_space_scheme:
  "\<forall>c \<in> set ''http://''. \<not> isspace c" "\<forall>c \<in> set ''https://''. \<not> isspace c"
  by (simp_all add: isspace_def)

lemma match_word:
  assumes w: "\<forall>c \<in> set w. \<not> isspace c" and rest: "rest = [] \<or> isspace (hd rest)"
  shows "match_url (w @ rest) = (if is_url w then Some (w, rest) else None)"
proof -
  have ps: "prefix ''https://'' (w @ rest) \<longleftrightarrow> prefix ''https://'' w"
    by (rule prefix_word [OF not_space_scheme(2) rest])
  have p: "prefix ''http://'' (w @ rest) \<longleftrightarrow> prefix ''http://'' w"
    by (rule prefix_word [OF not_space_scheme(1) rest])
  show ?thesis
  proof (cases "prefix ''https://'' w")
    case True
    then obtain v where v: "w = ''https://'' @ v" by (auto simp: prefix_def)
    have nv: "\<forall>c \<in> set v. \<not> isspace c" using w v by auto
    have np: "\<not> prefix ''http://'' w" using v by simp
    have sch: "scheme (w @ rest) = Some (''https://'', v @ rest)"
      using v by (simp add: scheme_def)
    have m: "match_url (w @ rest) = (if v = [] then None else Some (''https://'' @ v, rest))"
      using run_word [OF nv rest] by (simp add: match_url_def sch)
    have u: "is_url w \<longleftrightarrow> v \<noteq> []"
      using v by (simp add: is_url_def)
    show ?thesis
      unfolding m u using v by simp
  next
    case False
    note nps = False
    show ?thesis
    proof (cases "prefix ''http://'' w")
      case True
      then obtain v where v: "w = ''http://'' @ v" by (auto simp: prefix_def)
      have nv: "\<forall>c \<in> set v. \<not> isspace c" using w v by auto
      have sch: "scheme (w @ rest) = Some (''http://'', v @ rest)"
        using v nps ps by (simp add: scheme_def)
      have m: "match_url (w @ rest) = (if v = [] then None else Some (''http://'' @ v, rest))"
        using run_word [OF nv rest] by (simp add: match_url_def sch)
      have u: "is_url w \<longleftrightarrow> v \<noteq> []"
        using v by (simp add: is_url_def)
      show ?thesis
        unfolding m u using v by simp
    next
      case False
      then have "scheme (w @ rest) = None"
        using nps p ps by (simp add: scheme_def)
      then show ?thesis
        using False nps by (simp add: match_url_def is_url_def)
    qed
  qed
qed

lemma findall_word:
  assumes "\<forall>c \<in> set w. \<not> isspace c" and "rest = [] \<or> isspace (hd rest)"
  shows "findall (w @ rest) =
           (case url_in_word w of Some u \<Rightarrow> [u] | None \<Rightarrow> []) @ findall rest"
  using assms(1)
proof (induction w)
  case Nil
  then show ?case by simp
next
  case (Cons c w)
  have m: "match_url ((c # w) @ rest) = (if is_url (c # w) then Some (c # w, rest) else None)"
    by (rule match_word [OF Cons.prems assms(2)])
  show ?case
  proof (cases "is_url (c # w)")
    case True
    with m show ?thesis by simp
  next
    case False
    with m Cons show ?thesis by simp
  qed
qed

lemma findall_space:
  assumes "\<forall>c \<in> set s. isspace c"
  shows "findall (s @ t) = findall t"
  using assms
proof (induction s)
  case Nil
  then show ?case by simp
next
  case (Cons c s)
  then have "isspace c" by simp
  then have "c \<noteq> CHR ''h''" by (auto simp: isspace_def)
  then have "match_url (c # s @ t) = None"
    by (simp add: match_url_def scheme_def)
  with Cons show ?case by simp
qed

lemma findall_words:
  assumes "\<forall>c \<in> set w0. \<not> isspace c"
    and "\<forall>(s, w) \<in> set ps. s \<noteq> [] \<and> (\<forall>c \<in> set s. isspace c) \<and> (\<forall>c \<in> set w. \<not> isspace c)"
  shows "findall (words_text w0 ps) = List.map_filter url_in_word (w0 # map snd ps)"
  using assms
proof (induction ps arbitrary: w0)
  case Nil
  then show ?case
    using findall_word [of w0 "[]"]
    by (simp add: words_text_def split: option.splits)
next
  case (Cons p ps)
  obtain s w where p: "p = (s, w)" by (cases p)
  from Cons.prems p have s: "s \<noteq> []" "\<forall>c \<in> set s. isspace c"
    and w: "\<forall>c \<in> set w. \<not> isspace c"
    and rest: "\<forall>(s, w) \<in> set ps. s \<noteq> [] \<and> (\<forall>c \<in> set s. isspace c) \<and> (\<forall>c \<in> set w. \<not> isspace c)"
    by auto
  have t: "words_text w0 (p # ps) = w0 @ (s @ words_text w ps)"
    by (simp add: words_text_def p)
  have b: "s @ words_text w ps = [] \<or> isspace (hd (s @ words_text w ps))"
    using s by (cases s) auto
  have "findall (words_text w0 (p # ps)) =
      (case url_in_word w0 of Some u \<Rightarrow> [u] | None \<Rightarrow> []) @ findall (s @ words_text w ps)"
    unfolding t by (rule findall_word [OF Cons.prems(1) b])
  also have "findall (s @ words_text w ps) = findall (words_text w ps)"
    by (rule findall_space [OF s(2)])
  also have "findall (words_text w ps) = List.map_filter url_in_word (w # map snd ps)"
    by (rule Cons.IH [OF w rest])
  finally show ?case
    by (simp add: p split: option.splits)
qed

lemma url_in_word_url: "is_url w \<Longrightarrow> url_in_word w = Some w"
  by (cases w) (auto simp: is_url_def)

lemma url_in_word_scheme: "url_in_word w = Some u \<Longrightarrow> \<not> no_scheme w"
  by (induction w) (auto simp: no_scheme_def is_url_def split: if_splits)

lemma map_filter_urls:
  assumes "\<forall>w \<in> set ws. is_url w \<or> no_scheme w"
  shows "List.map_filter url_in_word ws = filter is_url ws"
  using assms
proof (induction ws)
  case Nil
  then show ?case by simp
next
  case (Cons w ws)
  show ?case
  proof (cases "is_url w")
    case True
    with Cons show ?thesis by (simp add: url_in_word_url)
  next
    case False
    with Cons have "no_scheme w" by simp
    then have "url_in_word w = None"
      using url_in_word_scheme [of w] by (cases "url_in_word w") auto
    with Cons False show ?thesis by simp
  qed
qed

text \<open>
  Claim C7. The extractor returns the empty list for \<open>None\<close> and for the empty
  string. For a text made of words separated by whitespace it returns, in the order of
  the words and with repetitions kept, one string for each word that holds a URL: that
  word from the scheme to its end, which is the longest run without whitespace that
  starts at the scheme. When \<open>k\<close> of the words are URLs and the others hold no scheme,
  the result is exactly those \<open>k\<close> words.
\<close>

theorem extract_urls_words:
  assumes "\<forall>c \<in> set w0. \<not> isspace c"
    and "\<forall>(s, w) \<in> set ps. s \<noteq> [] \<and> (\<forall>c \<in> set s. isspace c) \<and> (\<forall>c \<in> set w. \<not> isspace c)"
  shows "extract_urls None = [] \<and> extract_urls (Some []) = [] \<and>
         extract_urls (Some (words_text w0 ps)) = List.map_filter url_in_word (w0 # map snd ps) \<and>
         ((\<forall>w \<in> set (w0 # map snd ps). is_url w \<or> no_scheme w) \<longrightarrow>
            extract_urls (Some (words_text w0 ps)) = filter is_url (w0 # map snd ps))"
proof -
  have e: "extract_urls (Some t) = findall t" for t
    by (cases t) (simp_all add: extract_urls_def)
  have f: "findall (words_text w0 ps) = List.map_filter url_in_word (w0 # map snd ps)"
    by (rule findall_words [OF assms])
  have g: "(\<forall>w \<in> set (w0 # map snd ps). is_url w \<or> no_scheme w) \<longrightarrow>
      findall (words_text w0 ps) = filter is_url (w0 # map snd ps)"
    using f map_filter_urls [of "w0 # map snd ps"] by simp
  have n: "extract_urls None = []" "extract_urls (Some []) = []"
    by (simp_all add: extract_urls_def)
  from n f g show ?thesis by (simp add: e)
qed

theorem extract_urls_words_witness:
  "extract_urls (Some ''see http://a.com/x https://b.org  http://a.com/x'') =
     [''http://a.com/x'', ''https://b.org'', ''http://a.com/x'']"
proof -
  let ?ps = "[('' '', ''http://a.com/x''), ('' '', ''https://b.org''), (''  '', ''http://a.com/x'')]"
  have a: "\<forall>c \<in> set ''see''. \<not> isspace c"
    by (simp add: isspace_def)
  have b: "\<forall>(s, w) \<in> set ?ps. s \<noteq> [] \<and> (\<forall>c \<in> set s. isspace c) \<and> (\<forall>c \<in> set w. \<not> isspace c)"
    by (simp add: isspace_def)
  have c: "\<forall>w \<in> set (''see'' # map snd ?ps). is_url w \<or> no_scheme w"
    by (simp add: is_url_def no_scheme_def)
  have t: "words_text ''see'' ?ps = ''see http://a.com/x https://b.org  http://a.com/x''"
    by (simp add: words_text_def)
  have f: "filter is_url (''see'' # map snd ?ps) =
      [''http://a.com/x'', ''https://b.org'', ''http://a.com/x'']"
    by (simp add: is_url_def)
  show ?thesis
    using extract_urls_words [OF a b] c unfolding t f by blast
qed

text \<open>
  Claim C9 as stated fails: \<open>application/pdf+json\<close> starts with \<open>application/pdf\<close>
  and is not it, yet it is taken by the text branch (it contains \<open>json\<close>), and a call of
  the model is made.
\<close>

theorem pdf_prefix_counterexample:
  "startswith ''application/pdf+json'' ''application/pdf'' \<and>
   contains ''application/pdf+json'' ''application/pdf'' \<and>
   category (Some ''application/pdf+json'') = Text \<and>
   handle_content echo_world ''notes.txt'' (Some ''application/pdf+json'') None =
     (Inr ''notes\<newline>'', [([Str ''notes'', Str ''Summarize this content.''], None)])"
  by (simp add: startswith_def category_def handle_content_def resolve_mime_def
      build_contents_def text_data_def generate_def call_model_def echo_world_def)

text \<open>
  Claim C9, amended. Only the MIME type \<open>application/pdf\<close> itself is a PDF. A resolved
  MIME type other than it that neither starts with \<open>image/\<close>, \<open>audio/\<close> or \<open>text/\<close>
  nor contains \<open>json\<close> is unsupported, and the resolver returns the unsupported-content
  text without calling the model; this holds of every MIME type that starts with
  \<open>application/pdf\<close>, is longer and does not contain \<open>json\<close>.
\<close>

theorem pdf_only_exact:
  assumes "resolve_mime w source hint = Inr (Some m)"
  shows "(category (Some m) = PDF \<longleftrightarrow> m = ''application/pdf'') \<and>
         (m \<noteq> ''application/pdf'' \<and> \<not> startswith m ''image/'' \<and> \<not> startswith m ''audio/'' \<and>
          \<not> startswith m ''text/'' \<and> \<not> contains m ''json'' \<longrightarrow>
            category (Some m) = Unsupported \<and>
            handle_content w source hint user_input =
              (Inr (''Unsupported content type: '' @ or_else (Some m) ''unknown''), [])) \<and>
         (startswith m ''application/pdf'' \<and> m \<noteq> ''application/pdf'' \<and> \<not> contains m ''json'' \<longrightarrow>
            category (Some m) = Unsupported \<and>
            handle_content w source hint user_input =
              (Inr (''Unsupported content type: '' @ m), []))"
proof -
  have a: "category (Some m) = PDF \<longleftrightarrow> m = ''application/pdf''"
    by (simp add: category_def)
  have u: "category (Some m) = Unsupported \<Longrightarrow>
      handle_content w source hint user_input =
        (Inr (''Unsupported content type: '' @ or_else (Some m) ''unknown''), [])"
    using assms by (simp add: handle_content_def build_contents_def)
  have b: "m \<noteq> ''application/pdf'' \<and> \<not> startswith m ''image/'' \<and> \<not> startswith m ''audio/'' \<and>
      \<not> startswith m ''text/'' \<and> \<not> contains m ''json'' \<longrightarrow> category (Some m) = Unsupported"
    by (simp add: category_def)
  have p: "\<not> startswith m ''image/'' \<and> \<not> startswith m ''audio/'' \<and> \<not> startswith m ''text/'' \<and> m \<noteq> []"
    if "startswith m ''application/pdf''"
    using that by (auto simp: startswith_def prefix_def)
  have c: "startswith m ''application/pdf'' \<and> m \<noteq> ''application/pdf'' \<and> \<not> contains m ''json'' \<longrightarrow>
      category (Some m) = Unsupported \<and>
      handle_content w source hint user_input = (Inr (''Unsupported content type: '' @ m), [])"
    using p b u by auto
  from a b c u show ?thesis by blast
qed

theorem pdf_only_exact_witness:
  "category (Some ''application/pdf; charset=binary'') = Unsupported \<and>
   handle_content echo_world ''http://a/b.pdf'' (Some ''application/pdf; charset=binary'') None =
     (Inr ''Unsupported content type: application/pdf; charset=binary'', [])"
proof -
  have r: "resolve_mime echo_world ''http://a/b.pdf'' (Some ''application/pdf; charset=binary'') =
      Inr (Some ''application/pdf; charset=binary'')"
    by (simp add: resolve_mime_def)
  have h: "startswith ''application/pdf; charset=binary'' ''application/pdf'' \<and>
      ''application/pdf; charset=binary'' \<noteq> ''application/pdf'' \<and>
      \<not> contains ''application/pdf; charset=binary'' ''json''"
    by (simp add: startswith_def)
  show ?thesis
    using pdf_only_exact [OF r, of None] h by simp
qed

section \<open>Properties of the handler\<close>

lemma chatbot_post_success:
  assumes "outcome (chatbot_post env db user_id user_input file) = Success resp"
  shows "\<exists>from_file.
           file_texts env user_input file = Inr from_file \<and>
           (truthy user_input \<or> file \<noteq> None) \<and>
           resp = \<lparr>out_user_input = record_user_input user_input file,
                   out_response =
                     final_resp (fst (with_fallback env user_input
                                        (from_file @ url_texts env user_input))),
                   out_timestamp = utc_now env\<rparr> \<and>
           stored (chatbot_post env db user_id user_input file) =
             db @ [\<lparr>rec_user_id = user_id,
                    rec_user_input = record_user_input user_input file,
                    rec_response = out_response resp,
                    rec_timestamp = utc_now env\<rparr>]"
  using assms
  by (auto simp: chatbot_post_def split: if_splits option.splits sum.splits prod.splits)

lemma chatbot_post_queries:
  "queries (chatbot_post env db user_id user_input file) =
     (if (truthy user_input \<or> file \<noteq> None) \<and> history_error env = None \<and>
         (\<exists>from_file. file_texts env user_input file = Inr from_file \<and>
            filter_texts (from_file @ url_texts env user_input) = []) \<and>
         truthy user_input
      then [query_text (the user_input)] else [])"
  by (auto simp: chatbot_post_def with_fallback_def
      split: if_splits option.splits sum.splits prod.splits)

lemma fallback_text_nonempty: "fallback_text env u \<noteq> []"
  by (auto simp: fallback_text_def split: sum.splits query_out.splits option.splits)

lemma final_resp_one: "t \<noteq> [] \<Longrightarrow> final_resp [t] = t"
  by (simp add: final_resp_def)

lemma join_nonempty: "xs \<noteq> [] \<Longrightarrow> \<forall>x \<in> set xs. x \<noteq> [] \<Longrightarrow> join sep xs \<noteq> []"
  by (induction sep xs rule: join.induct) auto

lemma filter_texts_nonempty: "\<forall>x \<in> set (filter_texts xs). x \<noteq> []"
  by (auto simp: filter_texts_def kept_def)

lemma final_resp_kept:
  "filter_texts xs \<noteq> [] \<Longrightarrow> final_resp (filter_texts xs) = join ''\<newline>\<newline>'' (filter_texts xs)"
  using join_nonempty [OF _ filter_texts_nonempty, of xs "''\<newline>\<newline>''"]
  by (simp add: final_resp_def)

text \<open>
  Claim C4, amended. When the file gives the text \<open>F\<close> and the URLs give \<open>U1\<close> and
  \<open>U2\<close>, in that order, and all three are kept, the response of a successful request
  is the stripped \<open>F\<close>, a blank line, the stripped \<open>U1\<close>, a blank line and the
  stripped \<open>U2\<close>; the fallback does not run.
\<close>

theorem merge_order:
  assumes "outcome (chatbot_post env db user_id user_input file) = Success resp"
    and "file_texts env user_input file = Inr [F]"
    and "url_texts env user_input = [U1, U2]"
    and "kept F" and "kept U1" and "kept U2"
  shows "out_response resp =
           strip F @ ''\<newline>\<newline>'' @ strip U1 @ ''\<newline>\<newline>'' @ strip U2 \<and>
         queries (chatbot_post env db user_id user_input file) = []"
proof -
  have f: "filter_texts ([F] @ [U1, U2]) = [strip F, strip U1, strip U2]"
    using assms(4-6) by (simp add: filter_texts_def)
  have w: "with_fallback env user_input ([F] @ [U1, U2]) = ([strip F, strip U1, strip U2], [])"
    unfolding with_fallback_def f by simp
  have q: "queries (chatbot_post env db user_id user_input file) = []"
    unfolding chatbot_post_queries using assms(2,3) f by auto
  from chatbot_post_success [OF assms(1)] assms(2,3)
  have "out_response resp = final_resp [strip F, strip U1, strip U2]"
    using w by auto
  moreover have "final_resp [strip F, strip U1, strip U2] =
      join ''\<newline>\<newline>'' [strip F, strip U1, strip U2]"
    using final_resp_kept [of "[F] @ [U1, U2]"] unfolding f by simp
  ultimately show ?thesis using q by simp
qed

text \<open>
  Claim C5, amended. In a successful request, when no collected text is kept and there
  is user text, the retrieval query is made exactly once, with the preamble, a newline
  and the user text, and what it gives is the whole response: the stripped answer when
  there is one, the fixed apology when the result is empty, and the text
  \<open>Error generating response:\<close> followed by the description of the exception when the
  query raises. When a text is kept or there is no user text, no query is made.
\<close>

theorem fallback_once:
  assumes "outcome (chatbot_post env db user_id user_input file) = Success resp"
    and "file_texts env user_input file = Inr from_file"
  shows "(filter_texts (from_file @ url_texts env user_input) = [] \<and> truthy user_input \<longrightarrow>
            queries (chatbot_post env db user_id user_input file) =
              [prompt_header @ ''\<newline>'' @ the user_input] \<and>
            out_response resp = fallback_text env (the user_input) \<and>
            (query env (query_text (the user_input)) = Inr (Response (Some a)) \<and> strip a \<noteq> [] \<longrightarrow>
               out_response resp = strip a) \<and>
            (query env (query_text (the user_input)) = Inr Falsy \<or>
             query env (query_text (the user_input)) = Inr NoResponse \<or>
             query env (query_text (the user_input)) = Inr (Response (Some a)) \<and> strip a = [] \<longrightarrow>
               out_response resp = ''I couldn't generate a good response for your query.'') \<and>
            (query env (query_text (the user_input)) = Inl e \<longrightarrow>
               out_response resp = ''Error generating response: '' @ str e)) \<and>
         (filter_texts (from_file @ url_texts env user_input) \<noteq> [] \<or> \<not> truthy user_input \<longrightarrow>
            queries (chatbot_post env db user_id user_input file) = [])"
proof -
  let ?kept = "filter_texts (from_file @ url_texts env user_input)"
  let ?q = "query env (query_text (the user_input))"
  from chatbot_post_success [OF assms(1)] assms(2)
  have r: "out_response resp =
      final_resp (fst (with_fallback env user_input (from_file @ url_texts env user_input)))"
    and h: "truthy user_input \<or> file \<noteq> None"
    by auto
  have he: "history_error env = None"
    using assms(1) by (auto simp: chatbot_post_def split: if_splits option.splits)
  have q1: "?kept = [] \<and> truthy user_input \<longrightarrow>
      queries (chatbot_post env db user_id user_input file) =
        [prompt_header @ ''\<newline>'' @ the user_input]"
    unfolding chatbot_post_queries using assms(2) h he by (auto simp: query_text_def)
  have q2: "?kept \<noteq> [] \<or> \<not> truthy user_input \<longrightarrow>
      queries (chatbot_post env db user_id user_input file) = []"
    unfolding chatbot_post_queries using assms(2) by auto
  have t: "out_response resp = fallback_text env (the user_input)"
    if "?kept = [] \<and> truthy user_input"
    using that r fallback_text_nonempty [of env "the user_input"]
    by (simp add: with_fallback_def final_resp_one)
  have c1: "?q = Inr (Response (Some a)) \<and> strip a \<noteq> [] \<longrightarrow>
      fallback_text env (the user_input) = strip a"
    by (simp add: fallback_text_def)
  have c2: "?q = Inr Falsy \<or> ?q = Inr NoResponse \<or> ?q = Inr (Response (Some a)) \<and> strip a = [] \<longrightarrow>
      fallback_text env (the user_input) = ''I couldn't generate a good response for your query.''"
    by (auto simp: fallback_text_def)
  have c3: "?q = Inl e \<longrightarrow>
      fallback_text env (the user_input) = ''Error generating response: '' @ str e"
    by (simp add: fallback_text_def)
  from q1 q2 t c1 c2 c3 show ?thesis by presburger
qed

text \<open>
  Claim C6. A request that succeeds adds exactly one row to the table, whatever was
  resolved on the way: the row holds the response that is returned, and its user input
  is the user text, or the name of the uploaded file when there is no text, or the
  marker \<open><empty>\<close> when there is neither (which no successful request has).
\<close>

theorem one_record:
  assumes "outcome (chatbot_post env db user_id user_input file) = Success resp"
  shows "stored (chatbot_post env db user_id user_input file) =
           db @ [\<lparr>rec_user_id = user_id, rec_user_input = out_user_input resp,
                  rec_response = out_response resp, rec_timestamp = out_timestamp resp\<rparr>] \<and>
         length (stored (chatbot_post env db user_id user_input file)) = length db + 1 \<and>
         out_user_input resp =
           (if truthy user_input then the user_input
            else case file of Some f \<Rightarrow> filename f | None \<Rightarrow> ''<empty>'') \<and>
         (truthy user_input \<or> file \<noteq> None)"
  using chatbot_post_success [OF assms]
  by (auto simp: record_user_input_def)

lemma demo_run:
  "chatbot_post (answering_env Falsy) [] 7 (Some ''http://a http://b'') (Some cat_png) =
     \<lparr>outcome = Success \<lparr>out_user_input = ''http://a http://b'',
                           out_response = ''file summary\<newline>\<newline>http://a\<newline>\<newline>http://b'',
                           out_timestamp = 1000\<rparr>,
      stored = [\<lparr>rec_user_id = 7, rec_user_input = ''http://a http://b'',
                 rec_response = ''file summary\<newline>\<newline>http://a\<newline>\<newline>http://b'',
                 rec_timestamp = 1000\<rparr>],
      queries = []\<rparr>"
  by code_simp

lemma demo_file:
  "file_texts (answering_env Falsy) (Some ''http://a http://b'') (Some cat_png) =
     Inr [''file summary\<newline>'']"
  by code_simp

lemma demo_urls:
  "url_texts (answering_env Falsy) (Some ''http://a http://b'') =
     [''http://a\<newline>'', ''http://b\<newline>'']"
  by code_simp

lemma demo_kept:
  "kept ''file summary\<newline>''" "kept ''http://a\<newline>''" "kept ''http://b\<newline>''"
  by code_simp+

text \<open>
  Claim C4 as stated fails: the model's texts end with a newline, all three are kept,
  and the response is not \<open>F\<close>, a blank line, \<open>U1\<close>, a blank line and \<open>U2\<close>, because
  each text is stripped before the merge.
\<close>

theorem merge_counterexample:
  "file_texts (answering_env Falsy) (Some ''http://a http://b'') (Some cat_png) =
     Inr [''file summary\<newline>''] \<and>
   url_texts (answering_env Falsy) (Some ''http://a http://b'') =
     [''http://a\<newline>'', ''http://b\<newline>''] \<and>
   kept ''file summary\<newline>'' \<and> kept ''http://a\<newline>'' \<and> kept ''http://b\<newline>'' \<and>
   outcome (chatbot_post (answering_env Falsy) [] 7 (Some ''http://a http://b'') (Some cat_png)) =
     Success \<lparr>out_user_input = ''http://a http://b'',
               out_response = ''file summary\<newline>\<newline>http://a\<newline>\<newline>http://b'',
               out_timestamp = 1000\<rparr> \<and>
   ''file summary\<newline>\<newline>http://a\<newline>\<newline>http://b'' \<noteq>
     ''file summary\<newline>'' @ ''\<newline>\<newline>'' @ ''http://a\<newline>'' @ ''\<newline>\<newline>'' @ ''http://b\<newline>''"
  using demo_file demo_urls demo_kept by (simp add: demo_run)

theorem merge_order_witness:
  "queries (chatbot_post (answering_env Falsy) [] 7 (Some ''http://a http://b'') (Some cat_png)) = [] \<and>
   strip ''file summary\<newline>'' @ ''\<newline>\<newline>'' @ strip ''http://a\<newline>'' @ ''\<newline>\<newline>'' @
     strip ''http://b\<newline>'' = ''file summary\<newline>\<newline>http://a\<newline>\<newline>http://b''"
proof -
  let ?resp = "\<lparr>out_user_input = ''http://a http://b'',
                 out_response = ''file summary\<newline>\<newline>http://a\<newline>\<newline>http://b'',
                 out_timestamp = 1000\<rparr>"
  have o: "outcome (chatbot_post (answering_env Falsy) [] 7 (Some ''http://a http://b'')
                      (Some cat_png)) = Success ?resp"
    by (simp add: demo_run)
  from merge_order [OF o demo_file demo_urls demo_kept] show ?thesis by simp
qed

lemma hello_outcome:
  "outcome (chatbot_post (answering_env (Response (Some '' hi ''))) [] 7 (Some ''hello'') None) =
     Success \<lparr>out_user_input = ''hello'', out_response = ''hi'', out_timestamp = 1000\<rparr>"
  by code_simp

lemma hello_file:
  "file_texts (answering_env (Response (Some '' hi ''))) (Some ''hello'') None = Inr []"
  by (simp add: file_texts_def)

lemma hello_kept:
  "filter_texts ([] @ url_texts (answering_env (Response (Some '' hi ''))) (Some ''hello'')) = []"
  by code_simp

theorem fallback_once_witness:
  "queries (chatbot_post (answering_env (Response (Some '' hi ''))) [] 7 (Some ''hello'') None) =
     [prompt_header @ ''\<newline>'' @ ''hello'']"
  using fallback_once [OF hello_outcome hello_file] hello_kept by simp

text \<open>
  Claim C5 as stated fails: when the query raises, the response is not a fixed text; it
  carries the description of the exception, so two failures give two responses.
\<close>

theorem fallback_counterexample:
  "query (failing_env ''timeout'') (query_text ''hello'') = Inl (Exception ''timeout'') \<and>
   outcome (chatbot_post (failing_env ''timeout'') [] 7 (Some ''hello'') None) =
     Success \<lparr>out_user_input = ''hello'',
               out_response = ''Error generating response: timeout'',
               out_timestamp = 1000\<rparr> \<and>
   query (failing_env ''no index'') (query_text ''hello'') = Inl (Exception ''no index'') \<and>
   outcome (chatbot_post (failing_env ''no index'') [] 7 (Some ''hello'') None) =
     Success \<lparr>out_user_input = ''hello'',
               out_response = ''Error generating response: no index'',
               out_timestamp = 1000\<rparr>"
  by code_simp

lemma upload_outcome:
  "outcome (chatbot_post (answering_env Falsy) [] 7 None (Some cat_png)) =
     Success \<lparr>out_user_input = ''cat.png'', out_response = ''file summary'',
               out_timestamp = 1000\<rparr>"
  by code_simp

theorem one_record_witness:
  "stored (chatbot_post (answering_env (Response (Some '' hi ''))) [] 7 (Some ''hello'') None) =
     [\<lparr>rec_user_id = 7, rec_user_input = ''hello'', rec_response = ''hi'',
       rec_timestamp = 1000\<rparr>] \<and>
   stored (chatbot_post (answering_env Falsy) [] 7 None (Some cat_png)) =
     [\<lparr>rec_user_id = 7, rec_user_input = ''cat.png'', rec_response = ''file summary'',
       rec_timestamp = 1000\<rparr>]"
  using one_record [OF hello_outcome] one_record [OF upload_outcome]
  by simp

end
